theory Spec2Isabelle
  imports Main
begin

section \<open>Result codes\<close>

text \<open>
  The \<^verbatim>\<open>esp_err_t\<close> codes the two components return. Every early return of the
  C code (the \<^verbatim>\<open>ESP_RETURN_ON_FALSE\<close>, \<^verbatim>\<open>ESP_RETURN_ON_ERROR\<close> and
  \<^verbatim>\<open>ESP_GOTO_ON_ERROR\<close> macros) is a branch of the model that yields one of them.
\<close>

datatype esp_err_t =
    ESP_OK
  | ESP_FAIL
  | ESP_ERR_NO_MEM
  | ESP_ERR_INVALID_ARG
  | ESP_ERR_INVALID_STATE
  | ESP_ERR_NOT_FOUND
  | ESP_ERR_NOT_SUPPORTED
  | ESP_ERR_TIMEOUT
  | ESP_ERR_NOT_FINISHED

section \<open>Temperature sensor driver: \<^verbatim>\<open>esp_driver_tsens/src/temperature_sensor.c\<close>\<close>

subsection \<open>Data\<close>

text \<open>
  One row of the attribute table. The struct is declared in a header outside the
  sources; the fields are the ones \<^verbatim>\<open>temperature_sensor.c\<close> reads. They are C
  \<^verbatim>\<open>int\<close>s that the driver only compares and copies, so no wrap-around arises.
\<close>

record temperature_sensor_attribute_t =
  offset :: int
  reg_val :: int
  range_min :: int
  range_max :: int
  error_max :: int

text \<open>The driver's state tag, \<^verbatim>\<open>temp_sensor_fsm_t\<close>.\<close>

datatype temp_sensor_fsm_t = TEMP_SENSOR_FSM_INIT | TEMP_SENSOR_FSM_ENABLE

text \<open>
  The caller's configuration, \<^verbatim>\<open>temperature_sensor_config_t\<close>. The fields are
  prefixed with \<^verbatim>\<open>cfg_\<close> where the attribute record already owns the name;
  \<^verbatim>\<open>allow_pd\<close> is the bit \<^verbatim>\<open>flags.allow_pd\<close>.
\<close>

record temperature_sensor_config_t =
  cfg_range_min :: int
  cfg_range_max :: int
  cfg_clk_src :: int
  allow_pd :: bool

text \<open>
  The handle's object, \<^verbatim>\<open>temperature_sensor_obj_t\<close>. The pointer
  \<^verbatim>\<open>tsens_attribute\<close> into the sorted copy is the index of the row it points
  to, \<open>None\<close> for \<^verbatim>\<open>NULL\<close>; \<^verbatim>\<open>temp_sensor_isr_handle\<close> records whether
  the pointer is non-\<^verbatim>\<open>NULL\<close>. The clock source is kept as the number the code
  compares with \<^verbatim>\<open>0\<close>.
\<close>

record temperature_sensor_obj_t =
  tsens_attribute :: "nat option"
  fsm :: temp_sensor_fsm_t
  clk_src :: int
  temp_sensor_isr_handle :: bool

text \<open>
  What the file takes from headers and libraries that are not part of the sources, as
  parameters: the default clock source, the attribute table (its length is
  \<^verbatim>\<open>TEMPERATURE_SENSOR_ATTR_RANGE_NUM\<close>), the two SoC capability macros that
  guard code in the functions below, the C library's \<^verbatim>\<open>qsort\<close>, and the
  enumerator of \<^verbatim>\<open>temp_sensor_fsm_t\<close> whose value is \<^verbatim>\<open>0\<close> (what
  \<^verbatim>\<open>heap_caps_calloc\<close> leaves in the field).
\<close>

record tsens_env =
  TEMPERATURE_SENSOR_CLK_SRC_DEFAULT :: int
  temperature_sensor_attributes :: "temperature_sensor_attribute_t list"
  SOC_TEMPERATURE_SENSOR_SUPPORT_SLEEP_RETENTION :: bool
  SOC_TEMPERATURE_SENSOR_INTR_SUPPORT :: bool
  qsort :: "(temperature_sensor_attribute_t \<Rightarrow> temperature_sensor_attribute_t \<Rightarrow> int)
              \<Rightarrow> temperature_sensor_attribute_t list \<Rightarrow> temperature_sensor_attribute_t list"
  fsm_zero :: temp_sensor_fsm_t

text \<open>
  The module's static state: the sorted copy \<^verbatim>\<open>s_tsens_attribute_copy\<close>
  (\<open>None\<close> for \<^verbatim>\<open>NULL\<close>) and the table index last passed to
  \<^verbatim>\<open>temp_sensor_sync_tsens_idx\<close>. Writes to peripheral registers (clock select,
  range, power, interrupt enable) are not part of the state.
\<close>

record tsens_state =
  s_tsens_attribute_copy :: "temperature_sensor_attribute_t list option"
  synced_tsens_idx :: "nat option"

subsection \<open>Sorting the attribute table\<close>

definition accuracy_compare ::
  "temperature_sensor_attribute_t \<Rightarrow> temperature_sensor_attribute_t \<Rightarrow> int" where
  "accuracy_compare p1 p2 = (if error_max p1 < error_max p2 then - 1 else 1)"

text \<open>
  \<^verbatim>\<open>temperature_sensor_attribute_table_sort\<close>: the copy is allocated (the flag says
  whether \<^verbatim>\<open>heap_caps_malloc\<close> succeeded; its result is stored in either case),
  filled from the table and handed to \<^verbatim>\<open>qsort\<close> with \<open>accuracy_compare\<close>.
\<close>

definition temperature_sensor_attribute_table_sort ::
  "tsens_env \<Rightarrow> bool \<Rightarrow> tsens_state \<Rightarrow> esp_err_t \<times> tsens_state" where
  "temperature_sensor_attribute_table_sort e malloc_ok st =
     (if \<not> malloc_ok then (ESP_ERR_NO_MEM, st\<lparr>s_tsens_attribute_copy := None\<rparr>)
      else (ESP_OK,
            st\<lparr>s_tsens_attribute_copy :=
                 Some (qsort e accuracy_compare (temperature_sensor_attributes e))\<rparr>))"

text \<open>
  An instance of \<^verbatim>\<open>qsort\<close> for concrete runs: insertion sort that places an element
  before the first one it does not compare greater than.
\<close>

fun qsort_insert :: "('a \<Rightarrow> 'a \<Rightarrow> int) \<Rightarrow> 'a \<Rightarrow> 'a list \<Rightarrow> 'a list" where
  "qsort_insert cmp x [] = [x]"
| "qsort_insert cmp x (y # ys) =
     (if cmp x y \<le> 0 then x # y # ys else y # qsort_insert cmp x ys)"

fun qsort_insertion :: "('a \<Rightarrow> 'a \<Rightarrow> int) \<Rightarrow> 'a list \<Rightarrow> 'a list" where
  "qsort_insertion cmp [] = []"
| "qsort_insertion cmp (x # xs) = qsort_insert cmp x (qsort_insertion cmp xs)"

subsection \<open>Choosing the range\<close>

text \<open>
  Both loops of \<^verbatim>\<open>temperature_sensor_choose_best_range\<close> scan an array from index
  \<^verbatim>\<open>0\<close> and leave at the first hit: \<open>first_index\<close> is that scan.
\<close>

fun first_index :: "('a \<Rightarrow> bool) \<Rightarrow> 'a list \<Rightarrow> nat option" where
  "first_index P [] = None"
| "first_index P (x # xs) =
     (if P x then Some 0 else map_option Suc (first_index P xs))"

text \<open>
  The array behind \<^verbatim>\<open>s_tsens_attribute_copy\<close>. The function below is static and
  is called only after the table sort returned \<^verbatim>\<open>ESP_OK\<close>, when the pointer is
  not \<^verbatim>\<open>NULL\<close>.
\<close>

definition attribute_array :: "tsens_state \<Rightarrow> temperature_sensor_attribute_t list" where
  "attribute_array st = (case s_tsens_attribute_copy st of None \<Rightarrow> [] | Some c \<Rightarrow> c)"

definition temperature_sensor_choose_best_range ::
  "tsens_env \<Rightarrow> tsens_state \<Rightarrow> temperature_sensor_obj_t \<Rightarrow> temperature_sensor_config_t
     \<Rightarrow> esp_err_t \<times> tsens_state \<times> temperature_sensor_obj_t" where
  "temperature_sensor_choose_best_range e st tsens cfg =
     (let copy = attribute_array st;
          (st', tsens') =
            (case first_index
                    (\<lambda>a. cfg_range_min cfg \<ge> range_min a \<and> cfg_range_max cfg \<le> range_max a)
                    copy of
               None \<Rightarrow> (st, tsens)
             | Some i \<Rightarrow>
                 ((case first_index (\<lambda>a. reg_val a = reg_val (copy ! i))
                          (temperature_sensor_attributes e) of
                     None \<Rightarrow> st
                   | Some j \<Rightarrow> st\<lparr>synced_tsens_idx := Some j\<rparr>),
                  tsens\<lparr>tsens_attribute := Some i\<rparr>))
      in if tsens_attribute tsens' = None then (ESP_ERR_INVALID_ARG, st', tsens')
         else (ESP_OK, st', tsens'))"

subsection \<open>Install, uninstall, enable, disable\<close>

text \<open>
  \<^verbatim>\<open>temperature_sensor_uninstall\<close>. The handle is \<open>None\<close> for \<^verbatim>\<open>NULL\<close>; the
  first argument after the environment is what \<^verbatim>\<open>esp_intr_free\<close> returns if it
  is called. The last component of the result is the object after the call:
  \<open>None\<close> once it has been freed.
\<close>

definition temperature_sensor_uninstall ::
  "tsens_env \<Rightarrow> esp_err_t \<Rightarrow> tsens_state \<Rightarrow> temperature_sensor_obj_t option
     \<Rightarrow> esp_err_t \<times> tsens_state \<times> temperature_sensor_obj_t option" where
  "temperature_sensor_uninstall e intr_free st handle =
     (case handle of
        None \<Rightarrow> (ESP_ERR_INVALID_ARG, st, None)
      | Some tsens \<Rightarrow>
          if fsm tsens \<noteq> TEMP_SENSOR_FSM_INIT then (ESP_ERR_INVALID_STATE, st, Some tsens)
          else
            let st' = st\<lparr>s_tsens_attribute_copy := None\<rparr>
            in if SOC_TEMPERATURE_SENSOR_INTR_SUPPORT e \<and> temp_sensor_isr_handle tsens
                  \<and> intr_free \<noteq> ESP_OK
               then (intr_free, st', Some tsens)
               else (ESP_OK, st', None))"

text \<open>The object \<^verbatim>\<open>heap_caps_calloc\<close> returns: every field zero.\<close>

definition calloc_obj :: "tsens_env \<Rightarrow> temperature_sensor_obj_t" where
  "calloc_obj e =
     \<lparr>tsens_attribute = None, fsm = fsm_zero e, clk_src = 0, temp_sensor_isr_handle = False\<rparr>"

text \<open>
  \<^verbatim>\<open>temperature_sensor_install\<close>. \<open>calloc_ok\<close> and \<open>malloc_ok\<close> say whether
  the two allocations succeed, \<open>config\<close> is \<open>None\<close> for a \<^verbatim>\<open>NULL\<close>
  configuration and \<open>ret_tsens\<close> says whether the out-pointer is non-\<^verbatim>\<open>NULL\<close>.
  The last component of the result is what the call stores in \<^verbatim>\<open>*ret_tsens\<close>.
  On the \<^verbatim>\<open>err\<close> path the interrupt handle of the fresh object is
  \<^verbatim>\<open>NULL\<close>, so \<^verbatim>\<open>esp_intr_free\<close> is not called there.
\<close>

definition temperature_sensor_install ::
  "tsens_env \<Rightarrow> bool \<Rightarrow> bool \<Rightarrow> tsens_state \<Rightarrow> temperature_sensor_config_t option \<Rightarrow> bool
     \<Rightarrow> esp_err_t \<times> tsens_state \<times> temperature_sensor_obj_t option" where
  "temperature_sensor_install e calloc_ok malloc_ok st config ret_tsens =
     (case config of
        None \<Rightarrow> (ESP_ERR_INVALID_ARG, st, None)
      | Some tsens_config \<Rightarrow>
          if \<not> ret_tsens then (ESP_ERR_INVALID_ARG, st, None)
          else if s_tsens_attribute_copy st \<noteq> None then (ESP_ERR_INVALID_STATE, st, None)
          else if \<not> calloc_ok then (ESP_ERR_NO_MEM, st, None)
          else
            let tsens0 = calloc_obj e;
                tsens1 = (if clk_src tsens0 = 0
                          then tsens0\<lparr>clk_src := TEMPERATURE_SENSOR_CLK_SRC_DEFAULT e\<rparr>
                          else tsens0\<lparr>clk_src := cfg_clk_src tsens_config\<rparr>)
            in if \<not> SOC_TEMPERATURE_SENSOR_SUPPORT_SLEEP_RETENTION e \<and> allow_pd tsens_config
               then (ESP_ERR_NOT_SUPPORTED, st, None)
               else
                 (case temperature_sensor_attribute_table_sort e malloc_ok st of
                    (ret, st1) \<Rightarrow>
                      if ret \<noteq> ESP_OK
                      then (ret, fst (snd (temperature_sensor_uninstall e ESP_OK st1 (Some tsens1))),
                            None)
                      else
                        (case temperature_sensor_choose_best_range e st1 tsens1 tsens_config of
                           (ret2, st2, tsens2) \<Rightarrow>
                             if ret2 \<noteq> ESP_OK
                             then (ret2,
                                   fst (snd (temperature_sensor_uninstall e ESP_OK st2
                                               (Some tsens2))),
                                   None)
                             else (ESP_OK, st2, Some (tsens2\<lparr>fsm := TEMP_SENSOR_FSM_INIT\<rparr>)))))"

text \<open>
  \<^verbatim>\<open>temperature_sensor_enable\<close> and \<^verbatim>\<open>temperature_sensor_disable\<close>. The
  second component is the object behind the handle after the call.
\<close>

definition temperature_sensor_enable ::
  "temperature_sensor_obj_t option \<Rightarrow> esp_err_t \<times> temperature_sensor_obj_t option" where
  "temperature_sensor_enable handle =
     (case handle of
        None \<Rightarrow> (ESP_ERR_INVALID_ARG, None)
      | Some tsens \<Rightarrow>
          if fsm tsens \<noteq> TEMP_SENSOR_FSM_INIT then (ESP_ERR_INVALID_STATE, Some tsens)
          else (ESP_OK, Some (tsens\<lparr>fsm := TEMP_SENSOR_FSM_ENABLE\<rparr>)))"

definition temperature_sensor_disable ::
  "temperature_sensor_obj_t option \<Rightarrow> esp_err_t \<times> temperature_sensor_obj_t option" where
  "temperature_sensor_disable handle =
     (case handle of
        None \<Rightarrow> (ESP_ERR_INVALID_ARG, None)
      | Some tsens \<Rightarrow>
          if fsm tsens \<noteq> TEMP_SENSOR_FSM_ENABLE then (ESP_ERR_INVALID_STATE, Some tsens)
          else (ESP_OK, Some (tsens\<lparr>fsm := TEMP_SENSOR_FSM_INIT\<rparr>)))"

text \<open>
  Calls on one installed handle. Of the driver's functions only these three (and
  install) write \<^verbatim>\<open>fsm\<close> or free the object; the threshold, callback and read
  functions only test the field. A run ends when the object is freed.
\<close>

datatype tsens_op = Enable | Disable | Uninstall esp_err_t

fun tsens_step ::
  "tsens_env \<Rightarrow> tsens_op \<Rightarrow> tsens_state \<Rightarrow> temperature_sensor_obj_t
     \<Rightarrow> esp_err_t \<times> tsens_state \<times> temperature_sensor_obj_t option" where
  "tsens_step e Enable st tsens =
     (case temperature_sensor_enable (Some tsens) of (r, h) \<Rightarrow> (r, st, h))"
| "tsens_step e Disable st tsens =
     (case temperature_sensor_disable (Some tsens) of (r, h) \<Rightarrow> (r, st, h))"
| "tsens_step e (Uninstall intr_free) st tsens =
     temperature_sensor_uninstall e intr_free st (Some tsens)"

fun tsens_run ::
  "tsens_env \<Rightarrow> tsens_op list \<Rightarrow> tsens_state \<Rightarrow> temperature_sensor_obj_t
     \<Rightarrow> tsens_state \<times> temperature_sensor_obj_t option" where
  "tsens_run e [] st tsens = (st, Some tsens)"
| "tsens_run e (op # ops) st tsens =
     (case tsens_step e op st tsens of
        (r, st', None) \<Rightarrow> (st', None)
      | (r, st', Some tsens') \<Rightarrow> tsens_run e ops st' tsens')"

text \<open>A concrete environment and configuration for running the functions.\<close>

definition example_attributes :: "temperature_sensor_attribute_t list" where
  "example_attributes =
     [\<lparr>offset = - 2, reg_val = 5, range_min = 50, range_max = 125, error_max = 3\<rparr>,
      \<lparr>offset = - 1, reg_val = 7, range_min = 20, range_max = 100, error_max = 2\<rparr>,
      \<lparr>offset = 0, reg_val = 15, range_min = - 10, range_max = 80, error_max = 1\<rparr>,
      \<lparr>offset = 1, reg_val = 11, range_min = - 30, range_max = 50, error_max = 2\<rparr>,
      \<lparr>offset = 2, reg_val = 10, range_min = - 40, range_max = 20, error_max = 3\<rparr>]"

definition example_env :: tsens_env where
  "example_env =
     \<lparr>TEMPERATURE_SENSOR_CLK_SRC_DEFAULT = 4,
      temperature_sensor_attributes = example_attributes,
      SOC_TEMPERATURE_SENSOR_SUPPORT_SLEEP_RETENTION = False,
      SOC_TEMPERATURE_SENSOR_INTR_SUPPORT = True,
      qsort = qsort_insertion,
      fsm_zero = TEMP_SENSOR_FSM_INIT\<rparr>"

definition example_config :: temperature_sensor_config_t where
  "example_config =
     \<lparr>cfg_range_min = 10, cfg_range_max = 50, cfg_clk_src = 9, allow_pd = False\<rparr>"

definition example_state :: tsens_state where
  "example_state = \<lparr>s_tsens_attribute_copy = None, synced_tsens_idx = None\<rparr>"

text \<open>The state and the handle's object that installing with them yields.\<close>

definition example_installed_state :: tsens_state where
  "example_installed_state =
     \<lparr>s_tsens_attribute_copy = Some (qsort_insertion accuracy_compare example_attributes),
      synced_tsens_idx = Some 2\<rparr>"

definition example_handle :: temperature_sensor_obj_t where
  "example_handle =
     \<lparr>tsens_attribute = Some 0, fsm = TEMP_SENSOR_FSM_INIT, clk_src = 4,
      temp_sensor_isr_handle = False\<rparr>"

section \<open>SDIO slave receive path: \<^verbatim>\<open>esp_driver_sdio/include/driver/sdio_slave.h\<close>\<close>

text \<open>
  The sources hold the driver's header only: the declarations and their comments. The
  bodies of the receive functions are not among them, so the definitions of this
  section follow the specification (sections 3, 4.1, 4.2, 4.5 and 8), with the names
  of the header's declarations. They describe the driver from \<^verbatim>\<open>initialize\<close> on.
\<close>

text \<open>
  Modelled from the spec: the state tag of a registered buffer descriptor (section 3);
  an unregistered buffer has no descriptor.
\<close>

datatype buf_state = Idle | QueuedForDMA | CompletedAwaitingPickup

text \<open>The header's opaque handle; \<open>0\<close> is \<^verbatim>\<open>NULL\<close>.\<close>

type_synonym sdio_slave_buf_handle_t = nat

text \<open>
  Modelled from the spec: a buffer descriptor (section 3), its base address and its
  state tag. The capacity is the driver-wide \<^verbatim>\<open>recv_buffer_size\<close>.
\<close>

record buf_desc =
  buf_addr :: nat
  buf_state :: buf_state

text \<open>
  Modelled from the spec: the receive side of the driver context (sections 2, 4.2 and
  4.5): whether the driver is \<open>Running\<close> (started) or \<open>Stopped\<close>, the configured
  buffer size, the registry of descriptors by handle, the next handle to hand out, the
  hardware receive ring (handles in the order they were loaded) and the completion
  queue, whose entries are a handle, the number of bytes written into the buffer and
  the more-data flag.
\<close>

record sdio_slave =
  running :: bool
  recv_buffer_size :: nat
  registry :: "sdio_slave_buf_handle_t \<rightharpoonup> buf_desc"
  next_handle :: sdio_slave_buf_handle_t
  recv_ring :: "sdio_slave_buf_handle_t list"
  recv_done :: "(sdio_slave_buf_handle_t \<times> nat \<times> bool) list"

text \<open>Modelled from the spec: the state of a handle's buffer, \<open>None\<close> when unregistered.\<close>

definition buf_state_of :: "sdio_slave \<Rightarrow> sdio_slave_buf_handle_t \<Rightarrow> buf_state option" where
  "buf_state_of s h = map_option buf_state (registry s h)"

























section \<open>Properties of the temperature sensor driver\<close>

subsection \<open>The comparator\<close>

text \<open>
  Claim C10. For every pair of attribute records the comparator \<open>accuracy_compare\<close>
  returns \<open>-1\<close> or \<open>1\<close> and never \<open>0\<close>; when the two records have the same
  \<open>error_max\<close> it returns \<open>1\<close> in both argument orders; hence it is not
  antisymmetric: there are records \<open>a\<close>, \<open>b\<close> with both \<open>accuracy_compare a b\<close>
  and \<open>accuracy_compare b a\<close> positive.
\<close>

theorem accuracy_compare_never_zero:
  "(accuracy_compare p1 p2 = - 1 \<or> accuracy_compare p1 p2 = 1)
   \<and> accuracy_compare p1 p2 \<noteq> 0
   \<and> (error_max p1 = error_max p2 \<longrightarrow>
        accuracy_compare p1 p2 = 1 \<and> accuracy_compare p2 p1 = 1)
   \<and> (\<exists>a b. 0 < accuracy_compare a b \<and> 0 < accuracy_compare b a)"
proof -
  have range: "accuracy_compare p1 p2 = - 1 \<or> accuracy_compare p1 p2 = 1"
    by (simp add: accuracy_compare_def)
  have nonzero: "accuracy_compare p1 p2 \<noteq> 0"
    by (simp add: accuracy_compare_def)
  have ties: "error_max p1 = error_max p2 \<longrightarrow>
      accuracy_compare p1 p2 = 1 \<and> accuracy_compare p2 p1 = 1"
    by (simp add: accuracy_compare_def)
  have "0 < accuracy_compare p1 p1 \<and> 0 < accuracy_compare p1 p1"
    by (simp add: accuracy_compare_def)
  then have both: "\<exists>a b. 0 < accuracy_compare a b \<and> 0 < accuracy_compare b a"
    by blast
  from range nonzero ties both show ?thesis by blast
qed

theorem accuracy_compare_never_zero_witness:
  "error_max \<lparr>offset = - 2, reg_val = 0, range_min = 50, range_max = 125, error_max = 3\<rparr>
     = error_max \<lparr>offset = 2, reg_val = 4, range_min = - 40, range_max = 20, error_max = 3\<rparr>
   \<and> accuracy_compare
        \<lparr>offset = - 2, reg_val = 0, range_min = 50, range_max = 125, error_max = 3\<rparr>
        \<lparr>offset = 2, reg_val = 4, range_min = - 40, range_max = 20, error_max = 3\<rparr> = 1
   \<and> accuracy_compare
        \<lparr>offset = 2, reg_val = 4, range_min = - 40, range_max = 20, error_max = 3\<rparr>
        \<lparr>offset = - 2, reg_val = 0, range_min = 50, range_max = 125, error_max = 3\<rparr> = 1"
  using accuracy_compare_never_zero
    [of "\<lparr>offset = - 2, reg_val = 0, range_min = 50, range_max = 125, error_max = 3\<rparr>"
        "\<lparr>offset = 2, reg_val = 4, range_min = - 40, range_max = 20, error_max = 3\<rparr>"]
  by simp

subsection \<open>The clock source of an installed handle\<close>

lemma choose_cfg_clk:
  "temperature_sensor_choose_best_range e st t (cfg\<lparr>cfg_clk_src := c\<rparr>)
   = temperature_sensor_choose_best_range e st t cfg"
  by (simp add: temperature_sensor_choose_best_range_def)

lemma install_ignores_cfg_clk_src:
  "temperature_sensor_install e calloc_ok malloc_ok st
      (Some (cfg\<lparr>cfg_clk_src := c\<rparr>)) ret_tsens
    = temperature_sensor_install e calloc_ok malloc_ok st (Some cfg) ret_tsens"
  by (simp add: temperature_sensor_install_def calloc_obj_def choose_cfg_clk Let_def
      split: prod.splits)

lemma choose_best_range_clk_src:
  "temperature_sensor_choose_best_range e st t cfg = (r, st', t') \<Longrightarrow> clk_src t' = clk_src t"
  by (auto simp: temperature_sensor_choose_best_range_def Let_def split: option.splits if_splits)

lemma install_handle_only_on_ok:
  "temperature_sensor_install e calloc_ok malloc_ok st config ret_tsens = (r, st', Some h)
   \<Longrightarrow> r = ESP_OK"
  by (auto simp: temperature_sensor_install_def Let_def
       split: option.splits if_splits prod.splits)

lemma install_ok_clk_src:
  "temperature_sensor_install e calloc_ok malloc_ok st config ret_tsens = (r, st', Some h)
   \<Longrightarrow> clk_src h = TEMPERATURE_SENSOR_CLK_SRC_DEFAULT e"
  by (auto simp: temperature_sensor_install_def calloc_obj_def Let_def
       split: option.splits if_splits prod.splits dest!: choose_best_range_clk_src)

lemma install_ok_fsm:
  "temperature_sensor_install e calloc_ok malloc_ok st config ret_tsens = (r, st', Some h)
   \<Longrightarrow> fsm h = TEMP_SENSOR_FSM_INIT"
  by (auto simp: temperature_sensor_install_def Let_def
       split: option.splits if_splits prod.splits)

lemma example_install:
  "temperature_sensor_install example_env True True example_state (Some example_config) True
   = (ESP_OK, example_installed_state, Some example_handle)"
  by code_simp

text \<open>
  Claim C8. For every configuration passed to \<open>temperature_sensor_install\<close>, the
  clock source stored in the returned handle is \<open>TEMPERATURE_SENSOR_CLK_SRC_DEFAULT\<close>:
  the handle's object is zero-allocated, so its \<open>clk_src\<close> is \<open>0\<close> when the code
  tests it, the branch that copies the configuration's \<open>clk_src\<close> is never taken,
  and changing the caller's \<open>clk_src\<close> field changes nothing in what the call
  returns or does.
\<close>

theorem install_clk_src_always_default:
  "clk_src (calloc_obj e) = 0
   \<and> temperature_sensor_install e calloc_ok malloc_ok st
        (Some (cfg\<lparr>cfg_clk_src := c\<rparr>)) ret_tsens
      = temperature_sensor_install e calloc_ok malloc_ok st (Some cfg) ret_tsens
   \<and> (\<forall>r st' h.
         temperature_sensor_install e calloc_ok malloc_ok st config ret_tsens = (r, st', Some h)
         \<longrightarrow> r = ESP_OK \<and> clk_src h = TEMPERATURE_SENSOR_CLK_SRC_DEFAULT e)"
proof (intro conjI allI impI)
  show "clk_src (calloc_obj e) = 0"
    by (simp add: calloc_obj_def)
next
  show "temperature_sensor_install e calloc_ok malloc_ok st
          (Some (cfg\<lparr>cfg_clk_src := c\<rparr>)) ret_tsens
        = temperature_sensor_install e calloc_ok malloc_ok st (Some cfg) ret_tsens"
    by (rule install_ignores_cfg_clk_src)
next
  fix r st' h
  assume "temperature_sensor_install e calloc_ok malloc_ok st config ret_tsens = (r, st', Some h)"
  then show "r = ESP_OK" by (rule install_handle_only_on_ok)
next
  fix r st' h
  assume "temperature_sensor_install e calloc_ok malloc_ok st config ret_tsens = (r, st', Some h)"
  then show "clk_src h = TEMPERATURE_SENSOR_CLK_SRC_DEFAULT e" by (rule install_ok_clk_src)
qed

theorem install_clk_src_always_default_witness:
  "temperature_sensor_install example_env True True example_state (Some example_config) True
     = (ESP_OK, example_installed_state, Some example_handle)
   \<and> cfg_clk_src example_config = 9
   \<and> TEMPERATURE_SENSOR_CLK_SRC_DEFAULT example_env = 4
   \<and> clk_src example_handle = TEMPERATURE_SENSOR_CLK_SRC_DEFAULT example_env"
proof -
  note run = example_install
  have "clk_src example_handle = TEMPERATURE_SENSOR_CLK_SRC_DEFAULT example_env"
    using install_clk_src_always_default
            [where e = example_env and calloc_ok = True and malloc_ok = True
               and st = example_state and ret_tsens = True and config = "Some example_config"]
          run
    by blast
  moreover have "cfg_clk_src example_config = 9"
    by (simp add: example_config_def)
  moreover have "TEMPERATURE_SENSOR_CLK_SRC_DEFAULT example_env = 4"
    by (simp add: example_env_def)
  ultimately show ?thesis using run by simp
qed

subsection \<open>The handle's state machine\<close>

lemma enable_eq:
  "temperature_sensor_enable (Some t) =
     (if fsm t = TEMP_SENSOR_FSM_INIT then (ESP_OK, Some (t\<lparr>fsm := TEMP_SENSOR_FSM_ENABLE\<rparr>))
      else (ESP_ERR_INVALID_STATE, Some t))"
  by (simp add: temperature_sensor_enable_def)

lemma disable_eq:
  "temperature_sensor_disable (Some t) =
     (if fsm t = TEMP_SENSOR_FSM_ENABLE then (ESP_OK, Some (t\<lparr>fsm := TEMP_SENSOR_FSM_INIT\<rparr>))
      else (ESP_ERR_INVALID_STATE, Some t))"
  by (simp add: temperature_sensor_disable_def)

lemma uninstall_enabled:
  "fsm t = TEMP_SENSOR_FSM_ENABLE \<Longrightarrow>
   temperature_sensor_uninstall e intr_free st (Some t) = (ESP_ERR_INVALID_STATE, st, Some t)"
  by (simp add: temperature_sensor_uninstall_def)

lemma step_enabled_no_disable:
  "fsm t = TEMP_SENSOR_FSM_ENABLE \<Longrightarrow> op \<noteq> Disable \<Longrightarrow>
   tsens_step e op st t = (ESP_ERR_INVALID_STATE, st, Some t)"
  by (cases op) (simp_all add: enable_eq uninstall_enabled)

lemma run_enabled_no_disable:
  "fsm t = TEMP_SENSOR_FSM_ENABLE \<Longrightarrow> Disable \<notin> set ops \<Longrightarrow>
   tsens_run e ops st t = (st, Some t)"
proof (induction ops)
  case Nil
  then show ?case by simp
next
  case (Cons op ops)
  then have "tsens_step e op st t = (ESP_ERR_INVALID_STATE, st, Some t)"
    by (intro step_enabled_no_disable) auto
  with Cons show ?case by simp
qed


text \<open>
  Claim C9. After a successful install the handle's \<open>fsm\<close> field is
  \<open>TEMP_SENSOR_FSM_INIT\<close>, and it is always one of \<open>TEMP_SENSOR_FSM_INIT\<close> and
  \<open>TEMP_SENSOR_FSM_ENABLE\<close>. Enable succeeds exactly from \<open>INIT\<close> and sets
  \<open>ENABLE\<close>; disable succeeds exactly from \<open>ENABLE\<close> and sets \<open>INIT\<close>; each
  fails with \<open>ESP_ERR_INVALID_STATE\<close> otherwise and leaves the object as it is.
  Uninstall of an enabled sensor fails with \<open>ESP_ERR_INVALID_STATE\<close> and changes
  nothing; it returns \<open>ESP_OK\<close>, or frees the object, only from \<open>INIT\<close>. Hence
  no sequence of enable and uninstall calls without a disable frees an enabled
  sensor: it leaves the state and the object untouched.
\<close>

theorem tsens_fsm_transitions:
  "(\<forall>r st' h.
      temperature_sensor_install e calloc_ok malloc_ok st config ret_tsens = (r, st', Some h)
      \<longrightarrow> fsm h = TEMP_SENSOR_FSM_INIT)
   \<and> (fsm t = TEMP_SENSOR_FSM_INIT \<or> fsm t = TEMP_SENSOR_FSM_ENABLE)
   \<and> temperature_sensor_enable (Some t) =
       (if fsm t = TEMP_SENSOR_FSM_INIT
        then (ESP_OK, Some (t\<lparr>fsm := TEMP_SENSOR_FSM_ENABLE\<rparr>))
        else (ESP_ERR_INVALID_STATE, Some t))
   \<and> temperature_sensor_disable (Some t) =
       (if fsm t = TEMP_SENSOR_FSM_ENABLE
        then (ESP_OK, Some (t\<lparr>fsm := TEMP_SENSOR_FSM_INIT\<rparr>))
        else (ESP_ERR_INVALID_STATE, Some t))
   \<and> (fsm t = TEMP_SENSOR_FSM_ENABLE \<longrightarrow>
        temperature_sensor_uninstall e intr_free st (Some t) = (ESP_ERR_INVALID_STATE, st, Some t))
   \<and> (\<forall>r st' h'.
        temperature_sensor_uninstall e intr_free st (Some t) = (r, st', h')
        \<and> (r = ESP_OK \<or> h' = None)
        \<longrightarrow> fsm t = TEMP_SENSOR_FSM_INIT \<and> r = ESP_OK \<and> h' = None)
   \<and> (fsm t = TEMP_SENSOR_FSM_ENABLE \<and> Disable \<notin> set ops \<longrightarrow>
        tsens_run e ops st t = (st, Some t))"
proof (intro conjI allI impI)
  fix r st' h
  assume "temperature_sensor_install e calloc_ok malloc_ok st config ret_tsens = (r, st', Some h)"
  then show "fsm h = TEMP_SENSOR_FSM_INIT" by (rule install_ok_fsm)
next
  show "fsm t = TEMP_SENSOR_FSM_INIT \<or> fsm t = TEMP_SENSOR_FSM_ENABLE"
    by (cases "fsm t") simp_all
next
  show "temperature_sensor_enable (Some t) =
       (if fsm t = TEMP_SENSOR_FSM_INIT
        then (ESP_OK, Some (t\<lparr>fsm := TEMP_SENSOR_FSM_ENABLE\<rparr>))
        else (ESP_ERR_INVALID_STATE, Some t))"
    by (rule enable_eq)
next
  show "temperature_sensor_disable (Some t) =
       (if fsm t = TEMP_SENSOR_FSM_ENABLE
        then (ESP_OK, Some (t\<lparr>fsm := TEMP_SENSOR_FSM_INIT\<rparr>))
        else (ESP_ERR_INVALID_STATE, Some t))"
    by (rule disable_eq)
next
  assume "fsm t = TEMP_SENSOR_FSM_ENABLE"
  then show "temperature_sensor_uninstall e intr_free st (Some t)
             = (ESP_ERR_INVALID_STATE, st, Some t)"
    by (rule uninstall_enabled)
next
  fix r st' h'
  assume a: "temperature_sensor_uninstall e intr_free st (Some t) = (r, st', h')
             \<and> (r = ESP_OK \<or> h' = None)"
  then show "fsm t = TEMP_SENSOR_FSM_INIT"
    by (auto simp: temperature_sensor_uninstall_def Let_def split: if_splits)
  from a show "r = ESP_OK"
    by (auto simp: temperature_sensor_uninstall_def Let_def split: if_splits)
  from a show "h' = None"
    by (auto simp: temperature_sensor_uninstall_def Let_def split: if_splits)
next
  assume "fsm t = TEMP_SENSOR_FSM_ENABLE \<and> Disable \<notin> set ops"
  then show "tsens_run e ops st t = (st, Some t)"
    by (simp add: run_enabled_no_disable)
qed

theorem tsens_fsm_transitions_witness:
  "temperature_sensor_install example_env True True example_state (Some example_config) True
     = (ESP_OK, example_installed_state, Some example_handle)
   \<and> fsm example_handle = TEMP_SENSOR_FSM_INIT
   \<and> temperature_sensor_uninstall example_env ESP_OK example_installed_state (Some example_handle)
     = (ESP_OK, example_installed_state\<lparr>s_tsens_attribute_copy := None\<rparr>, None)
   \<and> fsm (example_handle\<lparr>fsm := TEMP_SENSOR_FSM_ENABLE\<rparr>) = TEMP_SENSOR_FSM_ENABLE
   \<and> temperature_sensor_uninstall example_env ESP_OK example_installed_state
        (Some (example_handle\<lparr>fsm := TEMP_SENSOR_FSM_ENABLE\<rparr>))
     = (ESP_ERR_INVALID_STATE, example_installed_state,
        Some (example_handle\<lparr>fsm := TEMP_SENSOR_FSM_ENABLE\<rparr>))
   \<and> Disable \<notin> set [Enable, Uninstall ESP_OK, Enable]
   \<and> tsens_run example_env [Enable, Uninstall ESP_OK, Enable] example_installed_state
        (example_handle\<lparr>fsm := TEMP_SENSOR_FSM_ENABLE\<rparr>)
     = (example_installed_state, Some (example_handle\<lparr>fsm := TEMP_SENSOR_FSM_ENABLE\<rparr>))"
proof -
  note inst = example_install
  have fin: "temperature_sensor_uninstall example_env ESP_OK example_installed_state
               (Some example_handle)
             = (ESP_OK, example_installed_state\<lparr>s_tsens_attribute_copy := None\<rparr>, None)"
    by (simp add: temperature_sensor_uninstall_def example_handle_def)
  have en: "fsm (example_handle\<lparr>fsm := TEMP_SENSOR_FSM_ENABLE\<rparr>) = TEMP_SENSOR_FSM_ENABLE"
    by simp
  have nd: "Disable \<notin> set [Enable, Uninstall ESP_OK, Enable]"
    by simp
  have init: "fsm example_handle = TEMP_SENSOR_FSM_INIT"
    using tsens_fsm_transitions
            [where e = example_env and calloc_ok = True and malloc_ok = True
               and st = example_state and config = "Some example_config" and ret_tsens = True]
          inst
    by blast
  have init': "fsm example_handle = TEMP_SENSOR_FSM_INIT"
    using tsens_fsm_transitions
            [where e = example_env and intr_free = ESP_OK and st = example_installed_state
               and t = example_handle]
          fin
    by blast
  have un: "temperature_sensor_uninstall example_env ESP_OK example_installed_state
              (Some (example_handle\<lparr>fsm := TEMP_SENSOR_FSM_ENABLE\<rparr>))
            = (ESP_ERR_INVALID_STATE, example_installed_state,
               Some (example_handle\<lparr>fsm := TEMP_SENSOR_FSM_ENABLE\<rparr>))"
    using tsens_fsm_transitions
            [where e = example_env and intr_free = ESP_OK and st = example_installed_state
               and t = "example_handle\<lparr>fsm := TEMP_SENSOR_FSM_ENABLE\<rparr>"]
          en
    by blast
  have run: "tsens_run example_env [Enable, Uninstall ESP_OK, Enable] example_installed_state
               (example_handle\<lparr>fsm := TEMP_SENSOR_FSM_ENABLE\<rparr>)
             = (example_installed_state, Some (example_handle\<lparr>fsm := TEMP_SENSOR_FSM_ENABLE\<rparr>))"
    using tsens_fsm_transitions
            [where e = example_env and st = example_installed_state
               and t = "example_handle\<lparr>fsm := TEMP_SENSOR_FSM_ENABLE\<rparr>"
               and ops = "[Enable, Uninstall ESP_OK, Enable]"]
          en nd
    by blast
  from inst init fin en un nd run show ?thesis by blast
qed

section \<open>Properties of the SDIO receive path\<close>

subsection \<open>Packet reconstruction\<close>


















subsection \<open>The buffer state cycle\<close>



lemma buf_state_of_frame [simp]:
  "buf_state_of (s\<lparr>recv_ring := r\<rparr>) h = buf_state_of s h"
  "buf_state_of (s\<lparr>recv_done := d\<rparr>) h = buf_state_of s h"
  "buf_state_of (s\<lparr>next_handle := n\<rparr>) h = buf_state_of s h"
  "buf_state_of (s\<lparr>running := on\<rparr>) h = buf_state_of s h"
  by (simp_all add: buf_state_of_def)









































end
